theory Spec2Isabelle
  imports Main "HOL-Library.Multiset"
begin

section \<open>Python strings\<close>

text \<open>
  A Python \<open>str\<close> is modelled as a HOL \<open>string\<close>: one \<open>char\<close> per code point, for
  the code points below 256.  \<open>isspace\<close> lists the characters among them that
  \<open>str.split()\<close> treats as whitespace (tab, line feed, vertical tab, form feed, carriage
  return, the four separators 0x1C..0x1F, space, NEL and the no-break space).
\<close>

definition isspace :: "char \<Rightarrow> bool" where
  "isspace c = (c \<in> set [CHR 0x09, CHR 0x0A, CHR 0x0B, CHR 0x0C, CHR 0x0D,
                          CHR 0x1C, CHR 0x1D, CHR 0x1E, CHR 0x1F, CHR 0x20,
                          CHR 0x85, CHR 0xA0])"

text \<open>
  \<open>s.split()\<close> with no separator: the maximal runs of non-whitespace characters, in
  order.  \<open>split_from tok s\<close> scans \<open>s\<close> with the token read so far in \<open>tok\<close>.
\<close>

fun split_from :: "string \<Rightarrow> string \<Rightarrow> string list" where
  "split_from tok [] = (if tok = [] then [] else [tok])"
| "split_from tok (c # cs) =
     (if isspace c then (if tok = [] then split_from [] cs else tok # split_from [] cs)
      else split_from (tok @ [c]) cs)"

definition py_split :: "string \<Rightarrow> string list" where
  "py_split s = split_from [] s"

text \<open>\<open>s.split(sep)\<close> for a one-character separator: empty pieces are kept.\<close>

fun split_sep :: "char \<Rightarrow> string \<Rightarrow> string \<Rightarrow> string list" where
  "split_sep sep piece [] = [piece]"
| "split_sep sep piece (c # cs) =
     (if c = sep then piece # split_sep sep [] cs else split_sep sep (piece @ [c]) cs)"

text \<open>\<open>sep.join(xs)\<close>.\<close>

fun join :: "string \<Rightarrow> string list \<Rightarrow> string" where
  "join sep [] = []"
| "join sep [x] = x"
| "join sep (x # y # ys) = x @ sep @ join sep (y # ys)"

definition startswith :: "string \<Rightarrow> string \<Rightarrow> bool" where
  "startswith s prefix = (take (length prefix) s = prefix)"

section \<open>Exceptions\<close>

text \<open>
  The exceptions that can leave a function of \<open>fusewrap.py\<close>.  \<open>FuseWrapException\<close> is the
  only class the module declares; it carries its message.  \<open>OSError\<close> stands for the
  failure of \<open>open\<close>, \<open>os.makedirs\<close>, \<open>Popen\<close> and \<open>os.rmdir\<close>.
\<close>

datatype py_exception =
    FuseWrapException string
  | OSError
  | IndexError
  | TypeError string
  | KeyboardInterrupt
  | SystemExit int

text \<open>\<open>xs[i]\<close> for a constant index \<open>i \<ge> 0\<close>: out of range raises \<open>IndexError\<close>.\<close>

definition getitem :: "'a list \<Rightarrow> nat \<Rightarrow> py_exception + 'a" where
  "getitem xs i = (if i < length xs then Inr (xs ! i) else Inl IndexError)"

section \<open>pathlib paths\<close>

text \<open>
  A \<open>pathlib.Path\<close> on POSIX: its root (\<open>''''\<close>, \<open>''/''\<close> or \<open>''//''\<close>) and the components
  after the root.  Two paths are equal when both agree, which is HOL's equality on
  the datatype.  \<open>Path_of s\<close> is \<open>Path(s)\<close>: \<open>posixpath.splitroot\<close>, then the pieces between
  slashes without the empty ones and the \<open>''.''\<close> ones.
\<close>

datatype Path = PurePath (root: string) (tail: "string list")

definition splitroot :: "string \<Rightarrow> string \<times> string" where
  "splitroot p =
     (if take 1 p \<noteq> ''/'' then ('''', p)
      else if take 1 (drop 1 p) \<noteq> ''/'' \<or> take 1 (drop 2 p) = ''/'' then (''/'', drop 1 p)
      else (''//'', drop 2 p))"

definition Path_of :: "string \<Rightarrow> Path" where
  "Path_of s =
     (case splitroot s of
        (r, rel) \<Rightarrow> PurePath r (filter (\<lambda>x. x \<noteq> [] \<and> x \<noteq> ''.'') (split_sep CHR ''/'' [] rel)))"

text \<open>\<open>str(p)\<close>.\<close>

definition str_of_path :: "Path \<Rightarrow> string" where
  "str_of_path p =
     (if root p = [] \<and> tail p = [] then ''.'' else root p @ join ''/'' (tail p))"

text \<open>\<open>p / s\<close> for a string \<open>s\<close>: an absolute \<open>s\<close> replaces \<open>p\<close>, a relative one is appended.\<close>

definition truediv :: "Path \<Rightarrow> string \<Rightarrow> Path" where
  "truediv p s =
     (let q = Path_of s
      in if root q \<noteq> [] then q else PurePath (root p) (tail p @ tail q))"

section \<open>FuseMount and SSHostname\<close>

datatype FuseMount = FuseMount (path: Path)

datatype SSHostname = SSHostname (name: string)

definition get_path :: "SSHostname \<Rightarrow> Path \<Rightarrow> Path" where
  "get_path self r = truediv r (name self)"

definition get_mount_root :: "SSHostname \<Rightarrow> string" where
  "get_mount_root self = name self @ '':/''"

fun is_mounted :: "SSHostname \<Rightarrow> Path \<Rightarrow> FuseMount list \<Rightarrow> bool" where
  "is_mounted self r [] = False"
| "is_mounted self r (fuse # fuses) =
     (if get_path self r = path fuse then True else is_mounted self r fuses)"

text \<open>
  The objects \<open>__eq__\<close> can be handed: an \<open>SSHostname\<close>, or a value of another class.
\<close>

datatype py_object =
    Obj_SSHostname SSHostname
  | Obj_FuseMount FuseMount
  | Obj_Path Path
  | Obj_str string
  | Obj_int int
  | Obj_None

fun isinstance_SSHostname :: "py_object \<Rightarrow> bool" where
  "isinstance_SSHostname (Obj_SSHostname h) = True"
| "isinstance_SSHostname obj = False"

fun SSHostname_eq :: "SSHostname \<Rightarrow> py_object \<Rightarrow> py_exception + bool" where
  "SSHostname_eq self (Obj_SSHostname obj) = Inr (name obj = name self)"
| "SSHostname_eq self obj = Inl (TypeError ''Wants SSHostname'')"

text \<open>
  \<open>x in xs\<close> on a list of \<open>SSHostname\<close>: the elements are compared with \<open>x\<close> from the
  left, by \<open>__eq__\<close>, and the first equal one ends the search.
\<close>

fun contains :: "SSHostname list \<Rightarrow> SSHostname \<Rightarrow> py_exception + bool" where
  "contains [] x = Inr False"
| "contains (e # es) x =
     (case SSHostname_eq e (Obj_SSHostname x) of
        Inl err \<Rightarrow> Inl err
      | Inr b \<Rightarrow> if b then Inr True else contains es x)"

section \<open>The controller's state and its two listings\<close>

record FuseWrap =
  mount_path :: Path
  ssh_cfg_path :: Path
  fuse_mounts :: "FuseMount list"
  hosts :: "SSHostname list"

definition get_mounted :: "FuseWrap \<Rightarrow> SSHostname list" where
  "get_mounted self =
     filter (\<lambda>hostname. is_mounted hostname (mount_path self) (fuse_mounts self)) (hosts self)"

definition get_unmounted :: "FuseWrap \<Rightarrow> SSHostname list" where
  "get_unmounted self =
     filter (\<lambda>hostname. \<not> is_mounted hostname (mount_path self) (fuse_mounts self)) (hosts self)"

section \<open>Text files\<close>

text \<open>
  A text file is the string that reading it gives.  \<open>readlines\<close> cuts it after every
  line feed; a last line without a line feed is kept as it is.  No line is empty, so
  the \<open>readline\<close> loop of \<open>_get_hostnames\<close>, which stops at the first empty result, visits
  the same lines.
\<close>

fun lines_from :: "string \<Rightarrow> string \<Rightarrow> string list" where
  "lines_from ln [] = (if ln = [] then [] else [ln])"
| "lines_from ln (c # cs) =
     (if c = CHR ''\<newline>'' then (ln @ [c]) # lines_from [] cs else lines_from (ln @ [c]) cs)"

definition readlines :: "string \<Rightarrow> string list" where
  "readlines text = lines_from [] text"

section \<open>The operating system\<close>

text \<open>
  What the operating system answers during one run: the text files that can be opened
  for reading, by file name; \<open>os.path.expanduser\<close>; and, for each call that changes
  something, whether it succeeds, raises \<open>OSError\<close> or is interrupted from the keyboard.
\<close>

datatype os_outcome = Succeeds | Fails | Interrupted

fun outcome :: "os_outcome \<Rightarrow> py_exception + unit" where
  "outcome Succeeds = Inr ()"
| "outcome Fails = Inl OSError"
| "outcome Interrupted = Inl KeyboardInterrupt"

record os_env =
  os_files :: "string \<Rightarrow> string option"
  os_expanduser :: "string \<Rightarrow> string"
  os_makedirs :: "Path \<Rightarrow> os_outcome"
  os_popen :: "string list \<Rightarrow> os_outcome"
  os_communicate :: "string list \<Rightarrow> os_outcome"
  os_rmdir :: "Path \<Rightarrow> os_outcome"

definition py_open :: "os_env \<Rightarrow> string \<Rightarrow> py_exception + string" where
  "py_open env file = (case os_files env file of None \<Rightarrow> Inl OSError | Some text \<Rightarrow> Inr text)"

text \<open>
  What a run does to the outside, in order.  A call is recorded when it is made,
  whether or not it succeeds.
\<close>

datatype effect =
    Print string
  | Print_stderr string
  | Print_help
  | Makedirs Path
  | Popen "string list"
  | Communicate
  | Rmdir Path

type_synonym 'a io = "effect list \<times> (py_exception + 'a)"

definition then_do :: "'a io \<Rightarrow> ('a \<Rightarrow> 'b io) \<Rightarrow> 'b io" where
  "then_do m f =
     (case m of
        (es, Inl e) \<Rightarrow> (es, Inl e)
      | (es, Inr x) \<Rightarrow> (case f x of (es', r) \<Rightarrow> (es @ es', r)))"

definition pure :: "py_exception + 'a \<Rightarrow> 'a io" where
  "pure r = ([], r)"

definition emit :: "effect \<Rightarrow> unit io" where
  "emit ef = ([ef], Inr ())"

definition os_call :: "effect \<Rightarrow> os_outcome \<Rightarrow> unit io" where
  "os_call ef out = ([ef], outcome out)"

section \<open>Reading the mount table and the SSH configuration\<close>

text \<open>
  \<open>_get_fuse_mounts\<close> and \<open>_get_hostnames\<close>, without the leading underscore that HOL
  names cannot have.  Each opens its file and runs its loop over the lines, with the
  list built so far in \<open>result\<close>; \<open>tokens[2]\<close> and \<open>line.split()[1]\<close> raise where
  the line is too short.
\<close>

fun fuse_mounts_loop :: "string list \<Rightarrow> FuseMount list \<Rightarrow> py_exception + FuseMount list" where
  "fuse_mounts_loop [] result = Inr result"
| "fuse_mounts_loop (line # rest) result =
     (let tokens = py_split line
      in case getitem tokens 2 of
           Inl e \<Rightarrow> Inl e
         | Inr fstype \<Rightarrow>
             if fstype = ''fuse.sshfs''
             then (case getitem tokens 1 of
                     Inl e \<Rightarrow> Inl e
                   | Inr p \<Rightarrow> fuse_mounts_loop rest (result @ [FuseMount (Path_of p)]))
             else fuse_mounts_loop rest result)"

definition get_fuse_mounts :: "os_env \<Rightarrow> py_exception + FuseMount list" where
  "get_fuse_mounts env =
     (case py_open env ''/proc/mounts'' of
        Inl e \<Rightarrow> Inl e
      | Inr f \<Rightarrow> fuse_mounts_loop (readlines f) [])"

fun hostnames_loop :: "string list \<Rightarrow> SSHostname list \<Rightarrow> py_exception + SSHostname list" where
  "hostnames_loop [] result = Inr result"
| "hostnames_loop (line # rest) result =
     (if startswith line ''Host''
      then (case getitem (py_split line) 1 of
              Inl e \<Rightarrow> Inl e
            | Inr alias \<Rightarrow> hostnames_loop rest (result @ [SSHostname alias]))
      else hostnames_loop rest result)"

definition get_hostnames :: "os_env \<Rightarrow> Path \<Rightarrow> py_exception + SSHostname list" where
  "get_hostnames env p =
     (case py_open env (str_of_path p) of
        Inl e \<Rightarrow> Inl e
      | Inr ssh_cfg \<Rightarrow> hostnames_loop (readlines ssh_cfg) [])"

section \<open>The controller\<close>

text \<open>
  The parsed command line: the mount directory and the job of the chosen subcommand
  with its own argument (\<open>all\<close> for \<open>list\<close>, \<open>hostname\<close> for \<open>mount\<close> and \<open>umount\<close>);
  no job when no subcommand was given.
\<close>

datatype job = Job_list bool | Job_mount string | Job_umount string

record args =
  mount_dir_path :: string
  job :: "job option"

text \<open>
  The module's three constants depend on the home directory that \<open>expanduser\<close> finds.
\<close>

definition HOME_PATH :: "os_env \<Rightarrow> Path" where
  "HOME_PATH env = Path_of (os_expanduser env ''~'')"

definition DEFAULT_SSH_CFG_PATH :: "os_env \<Rightarrow> Path" where
  "DEFAULT_SSH_CFG_PATH env = truediv (HOME_PATH env) ''.ssh/config''"

definition DEFAULT_MOUNT_PATH :: "os_env \<Rightarrow> Path" where
  "DEFAULT_MOUNT_PATH env = truediv (HOME_PATH env) ''mnt''"

text \<open>
  \<open>FuseWrap.__init__\<close>: the mount table is read first, then the configuration; an
  exception of either leaves the constructor.
\<close>

definition FuseWrap_init :: "os_env \<Rightarrow> args \<Rightarrow> py_exception + FuseWrap" where
  "FuseWrap_init env a =
     (case get_fuse_mounts env of
        Inl e \<Rightarrow> Inl e
      | Inr mounts \<Rightarrow>
          (case get_hostnames env (DEFAULT_SSH_CFG_PATH env) of
             Inl e \<Rightarrow> Inl e
           | Inr hs \<Rightarrow>
               Inr \<lparr>mount_path = Path_of (os_expanduser env (mount_dir_path a)),
                    ssh_cfg_path = DEFAULT_SSH_CFG_PATH env,
                    fuse_mounts = mounts,
                    hosts = hs\<rparr>))"

definition check_host :: "FuseWrap \<Rightarrow> SSHostname \<Rightarrow> unit io" where
  "check_host self hostname =
     then_do (pure (contains (hosts self) hostname)) (\<lambda>known.
       if \<not> known
       then pure (Inl (FuseWrapException
              (''There is no '' @ name hostname @ '' hostname in ''
                 @ str_of_path (ssh_cfg_path self))))
       else pure (Inr ()))"

text \<open>
  The line that \<open>mount\<close> and \<open>umount\<close> print before they start a program: the command
  in double quotes.
\<close>

definition echo :: "string list \<Rightarrow> effect" where
  "echo argv = Print ([CHR 0x22] @ join '' '' argv @ [CHR 0x22])"

definition mount :: "os_env \<Rightarrow> FuseWrap \<Rightarrow> SSHostname \<Rightarrow> unit io" where
  "mount env self host =
     then_do (check_host self host) (\<lambda>_.
     let mount_point = get_path host (mount_path self) in
     then_do (pure (contains (get_mounted self) host)) (\<lambda>mounted.
       if mounted
       then pure (Inl (FuseWrapException
              (''Host '' @ name host @ '' already mounted in '' @ str_of_path mount_point)))
       else
         then_do (os_call (Makedirs mount_point) (os_makedirs env mount_point)) (\<lambda>_.
         let argv = [''sshfs'', get_mount_root host, str_of_path mount_point] in
         then_do (emit (echo argv)) (\<lambda>_.
         then_do (os_call (Popen argv) (os_popen env argv)) (\<lambda>_.
         os_call Communicate (os_communicate env argv))))))"

definition umount :: "os_env \<Rightarrow> FuseWrap \<Rightarrow> SSHostname \<Rightarrow> unit io" where
  "umount env self host =
     then_do (check_host self host) (\<lambda>_.
     let mount_point = get_path host (mount_path self) in
     then_do (pure (contains (get_unmounted self) host)) (\<lambda>unmounted.
       if unmounted
       then pure (Inl (FuseWrapException (''Host '' @ name host @ '' already unmounted'')))
       else
         let argv = [''fusermount'', ''-u'', str_of_path mount_point] in
         then_do (emit (echo argv)) (\<lambda>_.
         then_do (os_call (Popen argv) (os_popen env argv)) (\<lambda>_.
         then_do (os_call Communicate (os_communicate env argv)) (\<lambda>_.
         os_call (Rmdir mount_point) (os_rmdir env mount_point))))))"

section \<open>The command line\<close>

definition job_list :: "os_env \<Rightarrow> args \<Rightarrow> bool \<Rightarrow> unit io" where
  "job_list env a all =
     then_do (pure (FuseWrap_init env a)) (\<lambda>fuse_wrap.
       (map (\<lambda>mnt. Print (name mnt @ '' -> '' @ str_of_path (mount_path fuse_wrap)
                             @ ''/'' @ name mnt))
            (get_mounted fuse_wrap)
        @ (if all
           then map (\<lambda>mnt. Print (name mnt @ '' -> empty'')) (get_unmounted fuse_wrap)
           else []),
        Inr ()))"

definition job_mount :: "os_env \<Rightarrow> args \<Rightarrow> string \<Rightarrow> unit io" where
  "job_mount env a hostname =
     then_do (pure (FuseWrap_init env a)) (\<lambda>fuse_wrap.
       mount env fuse_wrap (SSHostname hostname))"

definition job_umount :: "os_env \<Rightarrow> args \<Rightarrow> string \<Rightarrow> unit io" where
  "job_umount env a hostname =
     then_do (pure (FuseWrap_init env a)) (\<lambda>fuse_wrap.
       umount env fuse_wrap (SSHostname hostname))"

fun run_job :: "os_env \<Rightarrow> args \<Rightarrow> job \<Rightarrow> unit io" where
  "run_job env a (Job_list all) = job_list env a all"
| "run_job env a (Job_mount hostname) = job_mount env a hostname"
| "run_job env a (Job_umount hostname) = job_umount env a hostname"

text \<open>
  \<open>main\<close> after the command line is parsed: without a job it prints the help and exits
  with status 1; otherwise it runs the job, and handles \<open>FuseWrapException\<close> and
  \<open>KeyboardInterrupt\<close>, and nothing else.
\<close>

definition main :: "os_env \<Rightarrow> args \<Rightarrow> unit io" where
  "main env a =
     (case job a of
        None \<Rightarrow> ([Print_help], Inl (SystemExit 1))
      | Some j \<Rightarrow>
          (case run_job env a j of
             (es, Inl (FuseWrapException err)) \<Rightarrow> (es @ [Print_stderr (''ERR: '' @ err)], Inr ())
           | (es, Inl KeyboardInterrupt) \<Rightarrow> (es @ [Print ''Job canceled''], Inr ())
           | (es, r) \<Rightarrow> (es, r)))"

section \<open>Host declarations, in the words of the specification\<close>





section \<open>An example machine\<close>

text \<open>
  A machine for the concrete runs below: user \<open>u\<close> with home \<open>/home/u\<close>, the mount table
  and the SSH configuration given by their text (or absent), and every other call
  succeeding.
\<close>

definition example_env :: "string option \<Rightarrow> string option \<Rightarrow> os_env" where
  "example_env mounts ssh_cfg =
     \<lparr>os_files = (\<lambda>file. if file = ''/proc/mounts'' then mounts
                         else if file = ''/home/u/.ssh/config'' then ssh_cfg
                         else None),
      os_expanduser = (\<lambda>s. if s = ''~'' then ''/home/u''
                            else if take 2 s = ''~/'' then ''/home/u'' @ drop 1 s
                            else s),
      os_makedirs = (\<lambda>p. Succeeds),
      os_popen = (\<lambda>argv. Succeeds),
      os_communicate = (\<lambda>argv. Succeeds),
      os_rmdir = (\<lambda>p. Succeeds)\<rparr>"

definition example_args :: "job \<Rightarrow> args" where
  "example_args j = \<lparr>mount_dir_path = ''/home/u/mnt'', job = Some j\<rparr>"

definition example_wrap :: FuseWrap where
  "example_wrap =
     \<lparr>mount_path = Path_of ''/home/u/mnt'',
      ssh_cfg_path = Path_of ''/home/u/.ssh/config'',
      fuse_mounts = [FuseMount (Path_of ''/home/u/mnt/web'')],
      hosts = [SSHostname ''web'', SSHostname ''db'']\<rparr>"

section \<open>Host names: equality and membership\<close>

text \<open>
  C8. Two host aliases compare equal exactly when their names are equal; comparing a
  host alias with a value of any other class raises \<open>TypeError\<close> and so yields neither
  true nor false.
\<close>

theorem SSHostname_eq_by_name_or_TypeError:
  "SSHostname_eq a (Obj_SSHostname b) = Inr (name a = name b)
   \<and> (\<not> isinstance_SSHostname obj \<longrightarrow>
        SSHostname_eq a obj = Inl (TypeError ''Wants SSHostname''))"
  by (cases obj) auto

theorem SSHostname_eq_by_name_or_TypeError_witness:
  "SSHostname_eq (SSHostname ''web'') (Obj_SSHostname (SSHostname ''web'')) = Inr True
   \<and> SSHostname_eq (SSHostname ''web'') (Obj_SSHostname (SSHostname ''db'')) = Inr False
   \<and> \<not> isinstance_SSHostname (Obj_str ''web'')
   \<and> SSHostname_eq (SSHostname ''web'') (Obj_str ''web'') = Inl (TypeError ''Wants SSHostname'')"
  using SSHostname_eq_by_name_or_TypeError [of "SSHostname ''web''" "SSHostname ''web''" "Obj_str ''web''"]
    SSHostname_eq_by_name_or_TypeError [of "SSHostname ''web''" "SSHostname ''db''" "Obj_None"]
  by simp

lemma contains_iff: "contains es x = Inr (x \<in> set es)"
  by (induction es) (auto simp: SSHostname.expand)

section \<open>Classifying aliases\<close>

lemma is_mounted_iff:
  "is_mounted self r fuses \<longleftrightarrow> get_path self r \<in> path ` set fuses"
  by (induction fuses) auto

text \<open>
  C6. An alias is classified as mounted exactly when its mount root, the mount base
  joined with the alias name, is the path of some record of the snapshot.
\<close>

theorem mounted_iff_mount_root_recorded:
  "is_mounted (SSHostname n) base fuses
     \<longleftrightarrow> (\<exists>fuse \<in> set fuses. truediv base n = path fuse)"
  by (auto simp: is_mounted_iff get_path_def)

theorem mounted_iff_mount_root_recorded_witness:
  "is_mounted (SSHostname ''web'') (Path_of ''/home/u/mnt'')
     [FuseMount (Path_of ''/boot''), FuseMount (Path_of ''/home/u/mnt/web'')]
   \<and> truediv (Path_of ''/home/u/mnt'') ''web'' = path (FuseMount (Path_of ''/home/u/mnt/web''))
   \<and> \<not> is_mounted (SSHostname ''db'') (Path_of ''/home/u/mnt'')
     [FuseMount (Path_of ''/boot''), FuseMount (Path_of ''/home/u/mnt/web'')]"
  using mounted_iff_mount_root_recorded [of "''web''" "Path_of ''/home/u/mnt''"
      "[FuseMount (Path_of ''/boot''), FuseMount (Path_of ''/home/u/mnt/web'')]"]
    mounted_iff_mount_root_recorded [of "''db''" "Path_of ''/home/u/mnt''"
      "[FuseMount (Path_of ''/boot''), FuseMount (Path_of ''/home/u/mnt/web'')]"]
  by (simp add: truediv_def Path_of_def splitroot_def)

text \<open>
  C5. Whatever the alias list and the snapshot, the mounted and the unmounted aliases
  together are, as multisets, the configured aliases, and no alias is in both lists.
\<close>

theorem listings_partition_hosts:
  "mset (get_mounted self) + mset (get_unmounted self) = mset (hosts self)
   \<and> set (get_mounted self) \<inter> set (get_unmounted self) = {}"
  by (auto simp: get_mounted_def get_unmounted_def)

text \<open>
  C9. With the hosts \<open>web\<close> and \<open>db\<close> configured: on an empty snapshot nothing is listed
  as mounted and both hosts as unmounted; with the single record \<open>base/web\<close> in the
  snapshot, the mounted hosts are \<open>web\<close> alone.
\<close>

theorem listings_of_web_and_db:
  "get_mounted \<lparr>mount_path = base, ssh_cfg_path = cfg, fuse_mounts = [],
                 hosts = [SSHostname ''web'', SSHostname ''db'']\<rparr> = []
   \<and> get_unmounted \<lparr>mount_path = base, ssh_cfg_path = cfg, fuse_mounts = [],
                     hosts = [SSHostname ''web'', SSHostname ''db'']\<rparr>
       = [SSHostname ''web'', SSHostname ''db'']
   \<and> get_mounted \<lparr>mount_path = base, ssh_cfg_path = cfg,
                   fuse_mounts = [FuseMount (truediv base ''web'')],
                   hosts = [SSHostname ''web'', SSHostname ''db'']\<rparr>
       = [SSHostname ''web'']"
  by (simp add: get_mounted_def get_unmounted_def get_path_def truediv_def Path_of_def
      splitroot_def)

lemma in_get_mounted:
  "host \<in> set (get_mounted self) \<longleftrightarrow>
     host \<in> set (hosts self)
     \<and> truediv (mount_path self) (name host) \<in> path ` set (fuse_mounts self)"
  by (simp add: get_mounted_def is_mounted_iff get_path_def)

lemma in_get_unmounted:
  "host \<in> set (get_unmounted self) \<longleftrightarrow>
     host \<in> set (hosts self)
     \<and> truediv (mount_path self) (name host) \<notin> path ` set (fuse_mounts self)"
  by (simp add: get_unmounted_def is_mounted_iff get_path_def)

section \<open>Reading the two files\<close>

lemma lines_from_nonempty: "[] \<notin> set (lines_from ln s)"
  by (induction s arbitrary: ln) auto

lemma readlines_nonempty: "[] \<notin> set (readlines text)"
  by (simp add: readlines_def lines_from_nonempty)

lemma fuse_mounts_loop_ok:
  "\<forall>line \<in> set ls. 3 \<le> length (py_split line) \<Longrightarrow>
   fuse_mounts_loop ls acc =
     Inr (acc @ map (\<lambda>line. FuseMount (Path_of (py_split line ! 1)))
                  (filter (\<lambda>line. py_split line ! 2 = ''fuse.sshfs'') ls))"
  by (induction ls arbitrary: acc) (auto simp: getitem_def Let_def)

lemma fuse_mounts_loop_short:
  "\<exists>line \<in> set ls. length (py_split line) < 3 \<Longrightarrow> fuse_mounts_loop ls acc = Inl IndexError"
  by (induction ls arbitrary: acc) (auto simp: getitem_def Let_def)


lemma hostnames_loop_short:
  "\<exists>line \<in> set ls. startswith line ''Host'' \<and> length (py_split line) < 2 \<Longrightarrow>
   hostnames_loop ls acc = Inl IndexError"
  by (induction ls arbitrary: acc) (auto simp: getitem_def)



text \<open>
  C10. Inspecting the mount table is partial: it returns when every line of the table
  has at least three whitespace-separated fields, and raises \<open>IndexError\<close> when some
  line, such as an empty one, has fewer.
\<close>

theorem mount_table_inspection_partial:
  "os_files env ''/proc/mounts'' = Some table \<Longrightarrow>
     ((\<forall>line \<in> set (readlines table). 3 \<le> length (py_split line)) \<longrightarrow>
        (\<exists>result. get_fuse_mounts env = Inr result))
   \<and> ((\<exists>line \<in> set (readlines table). length (py_split line) < 3) \<longrightarrow>
        get_fuse_mounts env = Inl IndexError)"
  by (simp add: get_fuse_mounts_def py_open_def fuse_mounts_loop_ok fuse_mounts_loop_short)

theorem mount_table_inspection_partial_witness:
  "os_files (example_env (Some ''proc /proc proc rw 0 0\<newline>'') None) ''/proc/mounts''
     = Some ''proc /proc proc rw 0 0\<newline>''
   \<and> list_all (\<lambda>line. 3 \<le> length (py_split line)) (readlines ''proc /proc proc rw 0 0\<newline>'')
   \<and> (\<exists>result. get_fuse_mounts (example_env (Some ''proc /proc proc rw 0 0\<newline>'') None)
                  = Inr result)
   \<and> os_files (example_env (Some ''\<newline>'') None) ''/proc/mounts'' = Some ''\<newline>''
   \<and> list_ex (\<lambda>line. length (py_split line) < 3) (readlines ''\<newline>'')
   \<and> get_fuse_mounts (example_env (Some ''\<newline>'') None) = Inl IndexError"
proof -
  let ?good = "''proc /proc proc rw 0 0\<newline>''"
  let ?bad = "''\<newline>''"
  have f1: "os_files (example_env (Some ?good) None) ''/proc/mounts'' = Some ?good"
    by (simp add: example_env_def)
  have f2: "os_files (example_env (Some ?bad) None) ''/proc/mounts'' = Some ?bad"
    by (simp add: example_env_def)
  have h1: "list_all (\<lambda>line. 3 \<le> length (py_split line)) (readlines ?good)"
    by (simp add: readlines_def py_split_def isspace_def)
  have h2: "list_ex (\<lambda>line. length (py_split line) < 3) (readlines ?bad)"
    by (simp add: readlines_def py_split_def isspace_def)
  have c1: "\<exists>result. get_fuse_mounts (example_env (Some ?good) None) = Inr result"
    using mount_table_inspection_partial [OF f1] h1 by (simp add: list_all_iff)
  have c2: "get_fuse_mounts (example_env (Some ?bad) None) = Inl IndexError"
    using mount_table_inspection_partial [OF f2] h2 by (simp add: list_ex_iff)
  from f1 h1 c1 f2 h2 c2 show ?thesis by blast
qed

text \<open>
  C7. For a mount table in which every line has at least three fields, the inspector
  returns, in line order, one record per line whose third field is \<open>fuse.sshfs\<close>, holding the
  path of its second field, and nothing else.
\<close>

theorem mount_inspector_on_wellformed_table:
  "os_files env ''/proc/mounts'' = Some table \<Longrightarrow>
   \<forall>line \<in> set (readlines table). 3 \<le> length (py_split line) \<Longrightarrow>
   get_fuse_mounts env =
     Inr (map (\<lambda>line. FuseMount (Path_of (py_split line ! 1)))
              (filter (\<lambda>line. py_split line ! 2 = ''fuse.sshfs'') (readlines table)))"
  by (simp add: get_fuse_mounts_def py_open_def fuse_mounts_loop_ok)

theorem mount_inspector_on_wellformed_table_witness:
  "os_files (example_env (Some ''proc /proc proc rw 0 0\<newline>web:/ /home/u/mnt/web fuse.sshfs rw 0 0\<newline>'') None)
       ''/proc/mounts''
     = Some ''proc /proc proc rw 0 0\<newline>web:/ /home/u/mnt/web fuse.sshfs rw 0 0\<newline>''
   \<and> list_all (\<lambda>line. 3 \<le> length (py_split line))
        (readlines ''proc /proc proc rw 0 0\<newline>web:/ /home/u/mnt/web fuse.sshfs rw 0 0\<newline>'')
   \<and> get_fuse_mounts (example_env (Some ''proc /proc proc rw 0 0\<newline>web:/ /home/u/mnt/web fuse.sshfs rw 0 0\<newline>'') None)
     = Inr [FuseMount (PurePath ''/'' [''home'', ''u'', ''mnt'', ''web''])]"
proof -
  let ?table = "''proc /proc proc rw 0 0\<newline>web:/ /home/u/mnt/web fuse.sshfs rw 0 0\<newline>''"
  have f: "os_files (example_env (Some ?table) None) ''/proc/mounts'' = Some ?table"
    by (simp add: example_env_def)
  have h: "list_all (\<lambda>line. 3 \<le> length (py_split line)) (readlines ?table)"
    by (simp add: readlines_def py_split_def isspace_def)
  have c: "get_fuse_mounts (example_env (Some ?table) None)
             = Inr [FuseMount (PurePath ''/'' [''home'', ''u'', ''mnt'', ''web''])]"
    using mount_inspector_on_wellformed_table [OF f] h
    by (simp add: list_all_iff readlines_def py_split_def isspace_def Path_of_def splitroot_def)
  from f h c show ?thesis by blast
qed

text \<open>
  Without that condition the inspector need not return: a table with a blank line
  between two well-formed lines raises \<open>IndexError\<close>.
\<close>

theorem mount_inspector_short_line_counterexample:
  "get_fuse_mounts
     (example_env (Some ''proc /proc proc rw 0 0\<newline>\<newline>web:/ /home/u/mnt/web fuse.sshfs rw 0 0\<newline>'') None)
   = Inl IndexError"
  by (simp add: get_fuse_mounts_def py_open_def example_env_def readlines_def py_split_def
      isspace_def getitem_def)






section \<open>Mounting and unmounting\<close>

lemma check_host_unknown:
  "host \<notin> set (hosts self) \<Longrightarrow>
   check_host self host =
     ([], Inl (FuseWrapException (''There is no '' @ name host @ '' hostname in ''
                 @ str_of_path (ssh_cfg_path self))))"
  by (simp add: check_host_def then_do_def pure_def contains_iff)

lemma check_host_known:
  "host \<in> set (hosts self) \<Longrightarrow> check_host self host = ([], Inr ())"
  by (simp add: check_host_def then_do_def pure_def contains_iff)

lemma mount_unknown:
  "host \<notin> set (hosts self) \<Longrightarrow>
   mount env self host =
     ([], Inl (FuseWrapException (''There is no '' @ name host @ '' hostname in ''
                 @ str_of_path (ssh_cfg_path self))))"
  by (simp add: mount_def check_host_unknown then_do_def)

lemma mount_mounted:
  "host \<in> set (hosts self) \<Longrightarrow>
   truediv (mount_path self) (name host) \<in> path ` set (fuse_mounts self) \<Longrightarrow>
   mount env self host =
     ([], Inl (FuseWrapException (''Host '' @ name host @ '' already mounted in ''
                 @ str_of_path (truediv (mount_path self) (name host)))))"
  by (simp add: mount_def check_host_known then_do_def pure_def contains_iff in_get_mounted
      get_path_def)

lemma mount_fresh:
  "host \<in> set (hosts self) \<Longrightarrow>
   truediv (mount_path self) (name host) \<notin> path ` set (fuse_mounts self) \<Longrightarrow>
   mount env self host =
     (let mount_point = truediv (mount_path self) (name host);
          argv = [''sshfs'', name host @ '':/'', str_of_path mount_point]
      in case os_makedirs env mount_point of
           Succeeds \<Rightarrow>
             (case os_popen env argv of
                Succeeds \<Rightarrow> ([Makedirs mount_point, echo argv, Popen argv, Communicate],
                              outcome (os_communicate env argv))
              | Fails \<Rightarrow> ([Makedirs mount_point, echo argv, Popen argv], Inl OSError)
              | Interrupted \<Rightarrow>
                  ([Makedirs mount_point, echo argv, Popen argv], Inl KeyboardInterrupt))
         | Fails \<Rightarrow> ([Makedirs mount_point], Inl OSError)
         | Interrupted \<Rightarrow> ([Makedirs mount_point], Inl KeyboardInterrupt))"
  by (simp add: mount_def check_host_known then_do_def pure_def contains_iff in_get_mounted
      get_path_def get_mount_root_def os_call_def emit_def Let_def split: os_outcome.splits)

lemma umount_unknown:
  "host \<notin> set (hosts self) \<Longrightarrow>
   umount env self host =
     ([], Inl (FuseWrapException (''There is no '' @ name host @ '' hostname in ''
                 @ str_of_path (ssh_cfg_path self))))"
  by (simp add: umount_def check_host_unknown then_do_def)

lemma umount_unmounted:
  "host \<in> set (hosts self) \<Longrightarrow>
   truediv (mount_path self) (name host) \<notin> path ` set (fuse_mounts self) \<Longrightarrow>
   umount env self host =
     ([], Inl (FuseWrapException (''Host '' @ name host @ '' already unmounted'')))"
  by (simp add: umount_def check_host_known then_do_def pure_def contains_iff in_get_unmounted
      get_path_def)

lemma umount_mounted:
  "host \<in> set (hosts self) \<Longrightarrow>
   truediv (mount_path self) (name host) \<in> path ` set (fuse_mounts self) \<Longrightarrow>
   umount env self host =
     (let mount_point = truediv (mount_path self) (name host);
          argv = [''fusermount'', ''-u'', str_of_path mount_point]
      in case os_popen env argv of
           Succeeds \<Rightarrow>
             (case os_communicate env argv of
                Succeeds \<Rightarrow> ([echo argv, Popen argv, Communicate, Rmdir mount_point],
                              outcome (os_rmdir env mount_point))
              | Fails \<Rightarrow> ([echo argv, Popen argv, Communicate], Inl OSError)
              | Interrupted \<Rightarrow> ([echo argv, Popen argv, Communicate], Inl KeyboardInterrupt))
         | Fails \<Rightarrow> ([echo argv, Popen argv], Inl OSError)
         | Interrupted \<Rightarrow> ([echo argv, Popen argv], Inl KeyboardInterrupt))"
  by (simp add: umount_def check_host_known then_do_def pure_def contains_iff in_get_unmounted
      get_path_def os_call_def emit_def Let_def split: os_outcome.splits)

text \<open>
  C3. \<open>mount\<close> of an alias that is not configured raises the unknown-host error and does
  nothing else; of a configured alias whose mount root is in the snapshot, it raises
  the already-mounted error and does nothing else; otherwise it first creates the
  mount root, then prints and starts \<open>sshfs\<close> with the arguments \<open>alias:/\<close> and the mount
  root, the mount base joined with the alias name, and waits for it.
\<close>

theorem mount_outcomes:
  "let mount_point = truediv (mount_path self) (name host);
       argv = [''sshfs'', name host @ '':/'', str_of_path mount_point]
   in (host \<notin> set (hosts self) \<longrightarrow>
         mount env self host =
           ([], Inl (FuseWrapException (''There is no '' @ name host @ '' hostname in ''
                       @ str_of_path (ssh_cfg_path self)))))
    \<and> (host \<in> set (hosts self) \<and> mount_point \<in> path ` set (fuse_mounts self) \<longrightarrow>
         mount env self host =
           ([], Inl (FuseWrapException (''Host '' @ name host @ '' already mounted in ''
                       @ str_of_path mount_point))))
    \<and> (host \<in> set (hosts self) \<and> mount_point \<notin> path ` set (fuse_mounts self) \<longrightarrow>
         take 1 (fst (mount env self host)) = [Makedirs mount_point]
         \<and> (os_makedirs env mount_point = Succeeds \<longrightarrow>
              take 3 (fst (mount env self host))
                = [Makedirs mount_point, echo argv, Popen argv])
         \<and> (os_makedirs env mount_point = Succeeds \<and> os_popen env argv = Succeeds \<longrightarrow>
              mount env self host =
                ([Makedirs mount_point, echo argv, Popen argv, Communicate],
                 outcome (os_communicate env argv))))"
  unfolding Let_def
  by (intro conjI impI)
    (simp_all add: mount_unknown mount_mounted mount_fresh Let_def split: os_outcome.splits)

theorem mount_outcomes_witness:
  "SSHostname ''nope'' \<notin> set (hosts example_wrap)
   \<and> mount (example_env None None) example_wrap (SSHostname ''nope'')
       = ([], Inl (FuseWrapException ''There is no nope hostname in /home/u/.ssh/config''))
   \<and> SSHostname ''web'' \<in> set (hosts example_wrap)
   \<and> truediv (mount_path example_wrap) ''web'' \<in> path ` set (fuse_mounts example_wrap)
   \<and> mount (example_env None None) example_wrap (SSHostname ''web'')
       = ([], Inl (FuseWrapException ''Host web already mounted in /home/u/mnt/web''))
   \<and> SSHostname ''db'' \<in> set (hosts example_wrap)
   \<and> truediv (mount_path example_wrap) ''db'' \<notin> path ` set (fuse_mounts example_wrap)
   \<and> os_makedirs (example_env None None) (truediv (mount_path example_wrap) ''db'') = Succeeds
   \<and> os_popen (example_env None None) [''sshfs'', ''db:/'', ''/home/u/mnt/db''] = Succeeds
   \<and> mount (example_env None None) example_wrap (SSHostname ''db'')
       = ([Makedirs (PurePath ''/'' [''home'', ''u'', ''mnt'', ''db'']),
           Print (CHR 0x22 # ''sshfs db:/ /home/u/mnt/db'' @ [CHR 0x22]),
           Popen [''sshfs'', ''db:/'', ''/home/u/mnt/db''],
           Communicate],
          Inr ())"
proof -
  let ?env = "example_env None None"
  have h1: "SSHostname ''nope'' \<notin> set (hosts example_wrap)"
    by (simp add: example_wrap_def)
  have h2: "SSHostname ''web'' \<in> set (hosts example_wrap)"
    by (simp add: example_wrap_def)
  have h3: "truediv (mount_path example_wrap) ''web'' \<in> path ` set (fuse_mounts example_wrap)"
    by (simp add: example_wrap_def truediv_def Path_of_def splitroot_def)
  have h4: "SSHostname ''db'' \<in> set (hosts example_wrap)"
    by (simp add: example_wrap_def)
  have h5: "truediv (mount_path example_wrap) ''db'' \<notin> path ` set (fuse_mounts example_wrap)"
    by (simp add: example_wrap_def truediv_def Path_of_def splitroot_def)
  have h6: "os_makedirs ?env (truediv (mount_path example_wrap) ''db'') = Succeeds"
    by (simp add: example_env_def)
  have h7: "os_popen ?env [''sshfs'', ''db:/'', ''/home/u/mnt/db''] = Succeeds"
    by (simp add: example_env_def)
  have p: "truediv (mount_path example_wrap) ''db'' = PurePath ''/'' [''home'', ''u'', ''mnt'', ''db'']"
    by (simp add: example_wrap_def truediv_def Path_of_def splitroot_def)
  have c1: "mount ?env example_wrap (SSHostname ''nope'')
      = ([], Inl (FuseWrapException ''There is no nope hostname in /home/u/.ssh/config''))"
    using mount_outcomes [of example_wrap "SSHostname ''nope''" ?env] h1
    by (simp add: Let_def) (simp add: example_wrap_def str_of_path_def Path_of_def splitroot_def)
  have c2: "mount ?env example_wrap (SSHostname ''web'')
      = ([], Inl (FuseWrapException ''Host web already mounted in /home/u/mnt/web''))"
    using mount_outcomes [of example_wrap "SSHostname ''web''" ?env] h2 h3
    by (simp add: Let_def) (simp add: example_wrap_def str_of_path_def truediv_def Path_of_def splitroot_def)
  have c3: "mount ?env example_wrap (SSHostname ''db'')
       = ([Makedirs (PurePath ''/'' [''home'', ''u'', ''mnt'', ''db'']),
           Print (CHR 0x22 # ''sshfs db:/ /home/u/mnt/db'' @ [CHR 0x22]),
           Popen [''sshfs'', ''db:/'', ''/home/u/mnt/db''],
           Communicate],
          Inr ())"
    using mount_outcomes [of example_wrap "SSHostname ''db''" ?env] h4 h5 h6 h7
    by (simp add: Let_def p str_of_path_def echo_def example_env_def)
  from h1 c1 h2 h3 c2 h4 h5 h6 h7 c3 show ?thesis by blast
qed

text \<open>
  C4. \<open>umount\<close> of an alias that is not configured raises the unknown-host error; of a
  configured alias whose mount root is not in the snapshot, it raises the
  already-unmounted error; in both cases nothing is started and nothing removed.
  Otherwise it prints and starts \<open>fusermount -u\<close> on the mount root, waits for it, and
  then removes the mount root.
\<close>

theorem umount_results:
  "let mount_point = truediv (mount_path self) (name host);
       argv = [''fusermount'', ''-u'', str_of_path mount_point]
   in (host \<notin> set (hosts self) \<longrightarrow>
         umount env self host =
           ([], Inl (FuseWrapException (''There is no '' @ name host @ '' hostname in ''
                       @ str_of_path (ssh_cfg_path self)))))
    \<and> (host \<in> set (hosts self) \<and> mount_point \<notin> path ` set (fuse_mounts self) \<longrightarrow>
         umount env self host =
           ([], Inl (FuseWrapException (''Host '' @ name host @ '' already unmounted''))))
    \<and> (host \<in> set (hosts self) \<and> mount_point \<in> path ` set (fuse_mounts self) \<longrightarrow>
         take 2 (fst (umount env self host)) = [echo argv, Popen argv]
         \<and> (os_popen env argv = Succeeds \<longrightarrow>
              take 3 (fst (umount env self host)) = [echo argv, Popen argv, Communicate])
         \<and> (os_popen env argv = Succeeds \<and> os_communicate env argv = Succeeds \<longrightarrow>
              umount env self host =
                ([echo argv, Popen argv, Communicate, Rmdir mount_point],
                 outcome (os_rmdir env mount_point))))"
  unfolding Let_def
  by (intro conjI impI)
    (simp_all add: umount_unknown umount_unmounted umount_mounted Let_def
      split: os_outcome.splits)

theorem umount_results_witness:
  "SSHostname ''nope'' \<notin> set (hosts example_wrap)
   \<and> umount (example_env None None) example_wrap (SSHostname ''nope'')
       = ([], Inl (FuseWrapException ''There is no nope hostname in /home/u/.ssh/config''))
   \<and> SSHostname ''db'' \<in> set (hosts example_wrap)
   \<and> truediv (mount_path example_wrap) ''db'' \<notin> path ` set (fuse_mounts example_wrap)
   \<and> umount (example_env None None) example_wrap (SSHostname ''db'')
       = ([], Inl (FuseWrapException ''Host db already unmounted''))
   \<and> SSHostname ''web'' \<in> set (hosts example_wrap)
   \<and> truediv (mount_path example_wrap) ''web'' \<in> path ` set (fuse_mounts example_wrap)
   \<and> os_popen (example_env None None) [''fusermount'', ''-u'', ''/home/u/mnt/web''] = Succeeds
   \<and> os_communicate (example_env None None) [''fusermount'', ''-u'', ''/home/u/mnt/web'']
       = Succeeds
   \<and> umount (example_env None None) example_wrap (SSHostname ''web'')
       = ([Print (CHR 0x22 # ''fusermount -u /home/u/mnt/web'' @ [CHR 0x22]),
           Popen [''fusermount'', ''-u'', ''/home/u/mnt/web''],
           Communicate,
           Rmdir (PurePath ''/'' [''home'', ''u'', ''mnt'', ''web''])],
          Inr ())"
proof -
  let ?env = "example_env None None"
  have h1: "SSHostname ''nope'' \<notin> set (hosts example_wrap)"
    by (simp add: example_wrap_def)
  have h2: "SSHostname ''db'' \<in> set (hosts example_wrap)"
    by (simp add: example_wrap_def)
  have h3: "truediv (mount_path example_wrap) ''db'' \<notin> path ` set (fuse_mounts example_wrap)"
    by (simp add: example_wrap_def truediv_def Path_of_def splitroot_def)
  have h4: "SSHostname ''web'' \<in> set (hosts example_wrap)"
    by (simp add: example_wrap_def)
  have h5: "truediv (mount_path example_wrap) ''web'' \<in> path ` set (fuse_mounts example_wrap)"
    by (simp add: example_wrap_def truediv_def Path_of_def splitroot_def)
  have h6: "os_popen ?env [''fusermount'', ''-u'', ''/home/u/mnt/web''] = Succeeds"
    by (simp add: example_env_def)
  have h7: "os_communicate ?env [''fusermount'', ''-u'', ''/home/u/mnt/web''] = Succeeds"
    by (simp add: example_env_def)
  have p: "truediv (mount_path example_wrap) ''web''
             = PurePath ''/'' [''home'', ''u'', ''mnt'', ''web'']"
    by (simp add: example_wrap_def truediv_def Path_of_def splitroot_def)
  have c1: "umount ?env example_wrap (SSHostname ''nope'')
      = ([], Inl (FuseWrapException ''There is no nope hostname in /home/u/.ssh/config''))"
    using umount_results [of example_wrap "SSHostname ''nope''" ?env] h1
    by (simp add: Let_def) (simp add: example_wrap_def str_of_path_def Path_of_def splitroot_def)
  have c2: "umount ?env example_wrap (SSHostname ''db'')
      = ([], Inl (FuseWrapException ''Host db already unmounted''))"
    using umount_results [of example_wrap "SSHostname ''db''" ?env] h2 h3
    by (simp add: Let_def)
  have c3: "umount ?env example_wrap (SSHostname ''web'')
       = ([Print (CHR 0x22 # ''fusermount -u /home/u/mnt/web'' @ [CHR 0x22]),
           Popen [''fusermount'', ''-u'', ''/home/u/mnt/web''],
           Communicate,
           Rmdir (PurePath ''/'' [''home'', ''u'', ''mnt'', ''web''])],
          Inr ())"
    using umount_results [of example_wrap "SSHostname ''web''" ?env] h4 h5 h6 h7
    by (simp add: Let_def p str_of_path_def echo_def example_env_def)
  from h1 c1 h2 h3 c2 h4 h5 h6 h7 c3 show ?thesis by blast
qed

section \<open>The top level\<close>

lemma FuseWrap_init_fields:
  "FuseWrap_init env a = Inr fw \<Longrightarrow>
   ssh_cfg_path fw = DEFAULT_SSH_CFG_PATH env
   \<and> mount_path fw = Path_of (os_expanduser env (mount_dir_path a))"
  by (auto simp: FuseWrap_init_def split: sum.splits)

lemma FuseWrap_init_unreadable_mounts:
  "os_files env ''/proc/mounts'' = None \<Longrightarrow> FuseWrap_init env a = Inl OSError"
  by (simp add: FuseWrap_init_def get_fuse_mounts_def py_open_def)

lemma FuseWrap_init_unreadable_cfg:
  "get_fuse_mounts env = Inr ms \<Longrightarrow>
   os_files env (str_of_path (DEFAULT_SSH_CFG_PATH env)) = None \<Longrightarrow>
   FuseWrap_init env a = Inl OSError"
  by (simp add: FuseWrap_init_def get_hostnames_def py_open_def)

lemma run_job_init_fails:
  "FuseWrap_init env a = Inl e \<Longrightarrow> run_job env a j = ([], Inl e)"
  by (cases j) (simp_all add: job_list_def job_mount_def job_umount_def then_do_def pure_def)

lemma job_mount_after_init:
  "FuseWrap_init env a = Inr fw \<Longrightarrow> job_mount env a h = mount env fw (SSHostname h)"
  by (cases "mount env fw (SSHostname h)") (simp add: job_mount_def then_do_def pure_def)

lemma job_umount_after_init:
  "FuseWrap_init env a = Inr fw \<Longrightarrow> job_umount env a h = umount env fw (SSHostname h)"
  by (cases "umount env fw (SSHostname h)") (simp add: job_umount_def then_do_def pure_def)

lemma main_handles_FuseWrapException:
  "job a = Some j \<Longrightarrow> run_job env a j = (es, Inl (FuseWrapException msg)) \<Longrightarrow>
   main env a = (es @ [Print_stderr (''ERR: '' @ msg)], Inr ())"
  by (simp add: main_def)

lemma main_raises_OSError:
  "job a = Some j \<Longrightarrow> run_job env a j = (es, Inl OSError) \<Longrightarrow> main env a = (es, Inl OSError)"
  by (simp add: main_def)

text \<open>
  C1. The three errors the code raises as \<open>FuseWrapException\<close> (unknown host, already
  mounted, already unmounted) are recovered by \<open>main\<close>, which prints \<open>ERR: <message>\<close>
  once on standard error and returns.  A mount table or an SSH configuration that
  cannot be opened is an \<open>OSError\<close>, which \<open>main\<close> does not recover: it leaves \<open>main\<close>, and
  nothing is printed.
\<close>

theorem main_recovers_FuseWrapException_not_OSError:
  "job a = Some j \<Longrightarrow>
     (run_job env a j = (es, Inl (FuseWrapException msg)) \<longrightarrow>
        main env a = (es @ [Print_stderr (''ERR: '' @ msg)], Inr ()))
   \<and> (FuseWrap_init env a = Inr fw \<and> j = Job_mount h \<and> SSHostname h \<notin> set (hosts fw) \<longrightarrow>
        main env a =
          ([Print_stderr (''ERR: There is no '' @ h @ '' hostname in ''
                            @ str_of_path (DEFAULT_SSH_CFG_PATH env))], Inr ()))
   \<and> (FuseWrap_init env a = Inr fw \<and> j = Job_mount h \<and> SSHostname h \<in> set (hosts fw)
        \<and> truediv (mount_path fw) h \<in> path ` set (fuse_mounts fw) \<longrightarrow>
        main env a =
          ([Print_stderr (''ERR: Host '' @ h @ '' already mounted in ''
                            @ str_of_path (truediv (mount_path fw) h))], Inr ()))
   \<and> (FuseWrap_init env a = Inr fw \<and> j = Job_umount h \<and> SSHostname h \<notin> set (hosts fw) \<longrightarrow>
        main env a =
          ([Print_stderr (''ERR: There is no '' @ h @ '' hostname in ''
                            @ str_of_path (DEFAULT_SSH_CFG_PATH env))], Inr ()))
   \<and> (FuseWrap_init env a = Inr fw \<and> j = Job_umount h \<and> SSHostname h \<in> set (hosts fw)
        \<and> truediv (mount_path fw) h \<notin> path ` set (fuse_mounts fw) \<longrightarrow>
        main env a = ([Print_stderr (''ERR: Host '' @ h @ '' already unmounted'')], Inr ()))
   \<and> (os_files env ''/proc/mounts'' = None \<longrightarrow> main env a = ([], Inl OSError))
   \<and> (get_fuse_mounts env = Inr ms
        \<and> os_files env (str_of_path (DEFAULT_SSH_CFG_PATH env)) = None \<longrightarrow>
        main env a = ([], Inl OSError))"
proof (intro conjI impI)
  assume j: "job a = Some j"
  {
    assume "run_job env a j = (es, Inl (FuseWrapException msg))"
    with j show "main env a = (es @ [Print_stderr (''ERR: '' @ msg)], Inr ())"
      by (rule main_handles_FuseWrapException)
  next
    assume h: "FuseWrap_init env a = Inr fw \<and> j = Job_mount h \<and> SSHostname h \<notin> set (hosts fw)"
    then have "run_job env a j =
        ([], Inl (FuseWrapException (''There is no '' @ h @ '' hostname in ''
                    @ str_of_path (DEFAULT_SSH_CFG_PATH env))))"
      using FuseWrap_init_fields [of env a fw] job_mount_after_init [of env a fw h]
      by (simp add: mount_unknown)
    with j show "main env a =
          ([Print_stderr (''ERR: There is no '' @ h @ '' hostname in ''
                            @ str_of_path (DEFAULT_SSH_CFG_PATH env))], Inr ())"
      by (simp add: main_handles_FuseWrapException)
  next
    assume h: "FuseWrap_init env a = Inr fw \<and> j = Job_mount h \<and> SSHostname h \<in> set (hosts fw)
        \<and> truediv (mount_path fw) h \<in> path ` set (fuse_mounts fw)"
    then have "run_job env a j =
        ([], Inl (FuseWrapException (''Host '' @ h @ '' already mounted in ''
                    @ str_of_path (truediv (mount_path fw) h))))"
      using job_mount_after_init [of env a fw h] by (simp add: mount_mounted)
    with j show "main env a =
          ([Print_stderr (''ERR: Host '' @ h @ '' already mounted in ''
                            @ str_of_path (truediv (mount_path fw) h))], Inr ())"
      by (simp add: main_handles_FuseWrapException)
  next
    assume h: "FuseWrap_init env a = Inr fw \<and> j = Job_umount h \<and> SSHostname h \<notin> set (hosts fw)"
    then have "run_job env a j =
        ([], Inl (FuseWrapException (''There is no '' @ h @ '' hostname in ''
                    @ str_of_path (DEFAULT_SSH_CFG_PATH env))))"
      using FuseWrap_init_fields [of env a fw] job_umount_after_init [of env a fw h]
      by (simp add: umount_unknown)
    with j show "main env a =
          ([Print_stderr (''ERR: There is no '' @ h @ '' hostname in ''
                            @ str_of_path (DEFAULT_SSH_CFG_PATH env))], Inr ())"
      by (simp add: main_handles_FuseWrapException)
  next
    assume h: "FuseWrap_init env a = Inr fw \<and> j = Job_umount h \<and> SSHostname h \<in> set (hosts fw)
        \<and> truediv (mount_path fw) h \<notin> path ` set (fuse_mounts fw)"
    then have "run_job env a j =
        ([], Inl (FuseWrapException (''Host '' @ h @ '' already unmounted'')))"
      using job_umount_after_init [of env a fw h] by (simp add: umount_unmounted)
    with j show "main env a = ([Print_stderr (''ERR: Host '' @ h @ '' already unmounted'')], Inr ())"
      by (simp add: main_handles_FuseWrapException)
  next
    assume "os_files env ''/proc/mounts'' = None"
    then have "run_job env a j = ([], Inl OSError)"
      by (simp add: FuseWrap_init_unreadable_mounts run_job_init_fails)
    with j show "main env a = ([], Inl OSError)"
      by (rule main_raises_OSError)
  next
    assume "get_fuse_mounts env = Inr ms
        \<and> os_files env (str_of_path (DEFAULT_SSH_CFG_PATH env)) = None"
    then have "run_job env a j = ([], Inl OSError)"
      by (simp add: FuseWrap_init_unreadable_cfg run_job_init_fails)
    with j show "main env a = ([], Inl OSError)"
      by (rule main_raises_OSError)
  }
qed

theorem main_recovers_FuseWrapException_not_OSError_witness:
  "job (example_args (Job_mount ''nope'')) = Some (Job_mount ''nope'')
   \<and> run_job (example_env (Some ''web:/ /home/u/mnt/web fuse.sshfs rw 0 0\<newline>'')
                           (Some ''Host web\<newline>Host db\<newline>''))
        (example_args (Job_mount ''nope'')) (Job_mount ''nope'')
       = ([], Inl (FuseWrapException ''There is no nope hostname in /home/u/.ssh/config''))
   \<and> FuseWrap_init (example_env (Some ''web:/ /home/u/mnt/web fuse.sshfs rw 0 0\<newline>'')
                                 (Some ''Host web\<newline>Host db\<newline>''))
        (example_args (Job_mount ''nope''))
       = Inr example_wrap
   \<and> SSHostname ''nope'' \<notin> set (hosts example_wrap)
   \<and> main (example_env (Some ''web:/ /home/u/mnt/web fuse.sshfs rw 0 0\<newline>'')
                        (Some ''Host web\<newline>Host db\<newline>''))
        (example_args (Job_mount ''nope''))
       = ([Print_stderr ''ERR: There is no nope hostname in /home/u/.ssh/config''], Inr ())
   \<and> SSHostname ''web'' \<in> set (hosts example_wrap)
   \<and> truediv (mount_path example_wrap) ''web'' \<in> path ` set (fuse_mounts example_wrap)
   \<and> main (example_env (Some ''web:/ /home/u/mnt/web fuse.sshfs rw 0 0\<newline>'')
                        (Some ''Host web\<newline>Host db\<newline>''))
        (example_args (Job_mount ''web''))
       = ([Print_stderr ''ERR: Host web already mounted in /home/u/mnt/web''], Inr ())
   \<and> main (example_env (Some ''web:/ /home/u/mnt/web fuse.sshfs rw 0 0\<newline>'')
                        (Some ''Host web\<newline>Host db\<newline>''))
        (example_args (Job_umount ''nope''))
       = ([Print_stderr ''ERR: There is no nope hostname in /home/u/.ssh/config''], Inr ())
   \<and> SSHostname ''db'' \<in> set (hosts example_wrap)
   \<and> truediv (mount_path example_wrap) ''db'' \<notin> path ` set (fuse_mounts example_wrap)
   \<and> main (example_env (Some ''web:/ /home/u/mnt/web fuse.sshfs rw 0 0\<newline>'')
                        (Some ''Host web\<newline>Host db\<newline>''))
        (example_args (Job_umount ''db''))
       = ([Print_stderr ''ERR: Host db already unmounted''], Inr ())
   \<and> os_files (example_env None (Some ''Host web\<newline>Host db\<newline>'')) ''/proc/mounts'' = None
   \<and> main (example_env None (Some ''Host web\<newline>Host db\<newline>''))
        (example_args (Job_mount ''web''))
       = ([], Inl OSError)
   \<and> get_fuse_mounts (example_env (Some ''web:/ /home/u/mnt/web fuse.sshfs rw 0 0\<newline>'') None)
       = Inr [FuseMount (Path_of ''/home/u/mnt/web'')]
   \<and> os_files (example_env (Some ''web:/ /home/u/mnt/web fuse.sshfs rw 0 0\<newline>'') None)
        (str_of_path (DEFAULT_SSH_CFG_PATH
           (example_env (Some ''web:/ /home/u/mnt/web fuse.sshfs rw 0 0\<newline>'') None)))
       = None
   \<and> main (example_env (Some ''web:/ /home/u/mnt/web fuse.sshfs rw 0 0\<newline>'') None)
        (example_args (Job_umount ''web''))
       = ([], Inl OSError)"
proof -
  let ?table = "''web:/ /home/u/mnt/web fuse.sshfs rw 0 0\<newline>''"
  let ?cfg = "''Host web\<newline>Host db\<newline>''"
  let ?env = "example_env (Some ?table) (Some ?cfg)"
  let ?no_table = "example_env None (Some ?cfg)"
  let ?no_cfg = "example_env (Some ?table) None"
  note recovers = main_recovers_FuseWrapException_not_OSError
  have j: "job (example_args x) = Some x" for x
    by (simp add: example_args_def)
  have cfg_path: "str_of_path (DEFAULT_SSH_CFG_PATH (example_env m c)) = ''/home/u/.ssh/config''"
    for m c
    by (simp add: DEFAULT_SSH_CFG_PATH_def HOME_PATH_def example_env_def truediv_def Path_of_def
        splitroot_def str_of_path_def)
  have init: "FuseWrap_init ?env (example_args x) = Inr example_wrap" for x
    by (simp add: FuseWrap_init_def get_fuse_mounts_def get_hostnames_def py_open_def
        str_of_path_def DEFAULT_SSH_CFG_PATH_def HOME_PATH_def truediv_def Path_of_def splitroot_def
        example_env_def example_args_def example_wrap_def readlines_def py_split_def
        isspace_def getitem_def startswith_def)
  have h1: "SSHostname ''nope'' \<notin> set (hosts example_wrap)"
    by (simp add: example_wrap_def)
  have h2: "SSHostname ''web'' \<in> set (hosts example_wrap)"
    by (simp add: example_wrap_def)
  have h3: "truediv (mount_path example_wrap) ''web'' \<in> path ` set (fuse_mounts example_wrap)"
    by (simp add: example_wrap_def truediv_def Path_of_def splitroot_def)
  have h4: "SSHostname ''db'' \<in> set (hosts example_wrap)"
    by (simp add: example_wrap_def)
  have h5: "truediv (mount_path example_wrap) ''db'' \<notin> path ` set (fuse_mounts example_wrap)"
    by (simp add: example_wrap_def truediv_def Path_of_def splitroot_def)
  have h6: "os_files ?no_table ''/proc/mounts'' = None"
    by (simp add: example_env_def)
  have h7: "get_fuse_mounts ?no_cfg = Inr [FuseMount (Path_of ''/home/u/mnt/web'')]"
    by (simp add: get_fuse_mounts_def py_open_def example_env_def readlines_def py_split_def
        isspace_def getitem_def)
  have h8: "os_files ?no_cfg (str_of_path (DEFAULT_SSH_CFG_PATH ?no_cfg)) = None"
    by (simp add: cfg_path) (simp add: example_env_def)
  have r: "run_job ?env (example_args (Job_mount ''nope'')) (Job_mount ''nope'')
       = ([], Inl (FuseWrapException ''There is no nope hostname in /home/u/.ssh/config''))"
    using job_mount_after_init [OF init, of "Job_mount ''nope''" "''nope''"] h1
    by (simp add: mount_unknown) (simp add: example_wrap_def str_of_path_def Path_of_def splitroot_def)
  have c1: "main ?env (example_args (Job_mount ''nope''))
       = ([Print_stderr ''ERR: There is no nope hostname in /home/u/.ssh/config''], Inr ())"
    using recovers [OF j, where env = ?env and j = "Job_mount ''nope''" and fw = example_wrap
        and h = "''nope''" and es = "[]"
        and msg = "''There is no nope hostname in /home/u/.ssh/config''"] r init h1
    by (simp add: cfg_path)
  have c2: "main ?env (example_args (Job_mount ''web''))
       = ([Print_stderr ''ERR: Host web already mounted in /home/u/mnt/web''], Inr ())"
    using recovers [OF j, where env = ?env and j = "Job_mount ''web''" and fw = example_wrap
        and h = "''web''"] init h2 h3
    by simp (simp add: example_wrap_def truediv_def Path_of_def splitroot_def str_of_path_def)
  have c3: "main ?env (example_args (Job_umount ''nope''))
       = ([Print_stderr ''ERR: There is no nope hostname in /home/u/.ssh/config''], Inr ())"
    using recovers [OF j, where env = ?env and j = "Job_umount ''nope''" and fw = example_wrap
        and h = "''nope''"] init h1
    by (simp add: cfg_path)
  have c4: "main ?env (example_args (Job_umount ''db''))
       = ([Print_stderr ''ERR: Host db already unmounted''], Inr ())"
    using recovers [OF j, where env = ?env and j = "Job_umount ''db''" and fw = example_wrap
        and h = "''db''"] init h4 h5
    by simp
  have c5: "main ?no_table (example_args (Job_mount ''web'')) = ([], Inl OSError)"
    using recovers [OF j, where env = ?no_table and j = "Job_mount ''web''"] h6 by simp
  have c6: "main ?no_cfg (example_args (Job_umount ''web'')) = ([], Inl OSError)"
    using recovers [OF j, where env = ?no_cfg and j = "Job_umount ''web''"
        and ms = "[FuseMount (Path_of ''/home/u/mnt/web'')]"] h7 h8 by simp
  show ?thesis
    by (intro conjI j r init h1 c1 h2 h3 c2 c3 h4 h5 c4 h6 c5 h7 h8 c6)
qed

text \<open>
  A run of \<open>list --all\<close> on a machine without SSH configuration file: \<open>main\<close> raises
  \<open>OSError\<close> and prints nothing.
\<close>

theorem main_unreadable_config_counterexample:
  "main (example_env (Some ''web:/ /home/u/mnt/web fuse.sshfs rw 0 0\<newline>'') None)
        (example_args (Job_list True))
   = ([], Inl OSError)"
  by (simp add: main_def example_args_def job_list_def then_do_def pure_def FuseWrap_init_def
      get_fuse_mounts_def get_hostnames_def py_open_def example_env_def readlines_def
      py_split_def isspace_def getitem_def DEFAULT_SSH_CFG_PATH_def HOME_PATH_def truediv_def
      Path_of_def splitroot_def str_of_path_def)

end
